theory Spec2Isabelle
  imports Main "HOL-Library.Word"
begin

section \<open>The RPC client of status-go: routing, endpoint cache, handlers, result binding\<close>

text \<open>
  A shallow embedding of package \<^verbatim>\<open>rpc\<close> (the file with \<^verbatim>\<open>type Client struct\<close>).
  The Go code mutates the client and talks to the network; here every function takes the
  client record and a \<open>world\<close> (the heap of endpoint objects and the log of what was
  called) and returns them updated. Go's multiple return values \<open>(x, err)\<close> are pairs,
  a nil-able pointer or error is an \<open>option\<close>; a library call that returns either a
  value or an error is a sum, \<open>Inl\<close> the error. Locks and the logger are left
  out: the model is sequential.
\<close>

subsection \<open>Basic types\<close>

type_synonym chain_id = "64 word"

type_synonym byte = "8 word"

text \<open>A Go \<^verbatim>\<open>error\<close> value, identified by its message.\<close>

datatype error = Error string

fun msg :: "error \<Rightarrow> string" where
  "msg (Error s) = s"

text \<open>\<^verbatim>\<open>ErrMethodNotFound = fmt.Errorf("The method does not exist/is not available")\<close>\<close>

definition ErrMethodNotFound :: error where
  "ErrMethodNotFound = Error ''The method does not exist/is not available''"

text \<open>The verb \<^verbatim>\<open>%d\<close> of \<^verbatim>\<open>fmt\<close> on an unsigned integer: its decimal digits.\<close>

fun decimal :: "nat \<Rightarrow> string" where
  "decimal n =
     (if n < 10 then [''0123456789'' ! n]
      else decimal (n div 10) @ [''0123456789'' ! (n mod 10)])"

declare decimal.simps [simp del]

text \<open>\<^verbatim>\<open>context.Context\<close>: opaque to this package.\<close>

datatype go_context = Background | Ctx nat

text \<open>
  \<^verbatim>\<open>*gethrpc.Client\<close>, a connection handle: the serial number of the dial that opened it
  and the URL it was dialled to.
\<close>

datatype conn = Conn nat string

text \<open>
  Modelled from the spec: \<^verbatim>\<open>chain.ClientWithFallback\<close> (package \<^verbatim>\<open>rpc/chain\<close>) is not
  among the sources. The spec's Endpoint Record is
  "{ chainIdentifier, primary transport handle, optional fallback transport handle }".
\<close>

record ClientWithFallback =
  main :: conn
  fallback :: "conn option"
  ChainID :: chain_id

text \<open>
  A \<^verbatim>\<open>*chain.ClientWithFallback\<close>: \<open>None\<close> is the nil pointer, \<open>Some a\<close> the address
  of an object of the heap.
\<close>

type_synonym endpoint_ref = "nat option"

text \<open>
  Modelled from the spec: \<^verbatim>\<open>params.Network\<close> and \<^verbatim>\<open>params.UpstreamRPCConfig\<close> are
  declared outside the sources; the code reads the fields below.
\<close>

record Network =
  NetworkChainID :: chain_id
  RPCURL :: string
  FallbackURL :: string

record UpstreamRPCConfig =
  Enabled :: bool
  URL :: string

subsection \<open>Go values\<close>

text \<open>
  Handlers return \<^verbatim>\<open>interface{}\<close> and callers pass \<^verbatim>\<open>result interface{}\<close>: values
  that carry their type at run time. The fragment of Go's types modelled: the basic
  types, slices, maps, pointers, the empty interface and defined (named) types over them.
\<close>

datatype go_type =
    TBool | TInt | TUint8 | TString | TFloat64
  | TSlice go_type
  | TMap go_type go_type
  | TPtr go_type
  | TInterface                      \<comment> \<open>\<^verbatim>\<open>interface{}\<close>\<close>
  | TNamed string go_type           \<comment> \<open>\<^verbatim>\<open>type name underlying\<close>\<close>

text \<open>
  The data of a value, read at a type: a pointer carries its pointee (\<open>None\<close> for the nil
  pointer), an interface its dynamic type and data (\<open>None\<close> for the nil interface).
\<close>

datatype go_data =
    DBool bool
  | DInt int
  | DString string
  | DBytes "byte list"
  | DList "go_data list"
  | DMap "(go_data \<times> go_data) list"
  | DNull                                         \<comment> \<open>the nil slice or map\<close>
  | DPtr "go_data option"
  | DIface "(go_type \<times> go_data) option"

text \<open>An \<^verbatim>\<open>interface{}\<close> value: \<open>None\<close> is nil, \<open>Some (T, d)\<close> has dynamic type \<open>T\<close>.\<close>

type_synonym go_value = "(go_type \<times> go_data) option"

abbreviation bytesType :: go_type where
  "bytesType \<equiv> TSlice TUint8"

definition RawMessage :: go_type where
  "RawMessage = TNamed ''json.RawMessage'' (TSlice TUint8)"

text \<open>What a Go function does: it returns, or it panics with a value (printed with \<^verbatim>\<open>%s\<close>).\<close>

datatype 'a outcome = Returned 'a | Panicked string

text \<open>
  \<^verbatim>\<open>json.Marshal\<close> is a library function, taken as a parameter: it returns the encoding
  or an error, and a \<^verbatim>\<open>MarshalJSON\<close> method it calls may panic.
\<close>

type_synonym marshaller = "go_value \<Rightarrow> (error + byte list) outcome"

subsection \<open>The world outside the client\<close>

text \<open>
  Every call that leaves the function under study is logged, in order. The number of
  dials is the number of \<open>EvDial\<close> entries.
\<close>

datatype event =
    EvCountCall string                          \<comment> \<open>\<^verbatim>\<open>rpcstats.CountCall(method)\<close>\<close>
  | EvRouteBlocked string                       \<comment> \<open>\<^verbatim>\<open>c.router.routeBlocked(method)\<close>\<close>
  | EvRouteRemote string                        \<comment> \<open>\<^verbatim>\<open>c.router.routeRemote(method)\<close>\<close>
  | EvHandlerLookup string                      \<comment> \<open>\<^verbatim>\<open>c.handler(method)\<close>\<close>
  | EvHandlerCall go_context chain_id "go_value list"  \<comment> \<open>\<^verbatim>\<open>handler(ctx, chainID, args...)\<close>\<close>
  | EvGetClient chain_id                        \<comment> \<open>\<^verbatim>\<open>c.getClientUsingCache(chainID)\<close>\<close>
  | EvFind chain_id                             \<comment> \<open>\<^verbatim>\<open>c.NetworkManager.Find(chainID)\<close>\<close>
  | EvDial string                               \<comment> \<open>\<^verbatim>\<open>gethrpc.Dial(url)\<close>\<close>
  | EvChainCall endpoint_ref string             \<comment> \<open>\<^verbatim>\<open>client.CallContext(ctx, result, method, args...)\<close>\<close>
  | EvLocalCall conn string                     \<comment> \<open>\<^verbatim>\<open>c.local.CallContext(ctx, result, method, args...)\<close>\<close>

record world =
  heap :: "ClientWithFallback list"   \<comment> \<open>the endpoint objects allocated so far; an address is an index\<close>
  trace :: "event list"               \<comment> \<open>what was called so far, oldest first\<close>

definition log_event :: "event \<Rightarrow> world \<Rightarrow> world" where
  "log_event e w = w\<lparr>trace := trace w @ [e]\<rparr>"

fun is_dial :: "event \<Rightarrow> bool" where
  "is_dial (EvDial u) = True"
| "is_dial _ = False"

definition dials :: "world \<Rightarrow> nat" where
  "dials w = length (filter is_dial (trace w))"

text \<open>
  \<^verbatim>\<open>gethrpc.Dial\<close> is a library call whose outcome the network decides: \<open>dial k url\<close>
  is the outcome of dialling \<open>url\<close> when \<open>k\<close> dials were made before, \<open>None\<close> for a
  connection and \<open>Some e\<close> for the error.
\<close>

type_synonym dialer = "nat \<Rightarrow> string \<Rightarrow> error option"

definition gethrpc_Dial :: "dialer \<Rightarrow> world \<Rightarrow> string \<Rightarrow> (error + conn) \<times> world" where
  "gethrpc_Dial dial w url =
     (let k = dials w; w' = log_event (EvDial url) w in
      case dial k url of
        Some e \<Rightarrow> (Inl e, w')
      | None \<Rightarrow> (Inr (Conn k url), w'))"

text \<open>
  Modelled from the spec: the constructors \<^verbatim>\<open>chain.NewClient\<close> and
  \<^verbatim>\<open>chain.NewSimpleClient\<close> are not among the sources. Each allocates a new Endpoint
  Record from its arguments and returns the pointer to it.
\<close>

definition alloc :: "ClientWithFallback \<Rightarrow> world \<Rightarrow> endpoint_ref \<times> world" where
  "alloc obj w = (Some (length (heap w)), w\<lparr>heap := heap w @ [obj]\<rparr>)"

definition chain_NewClient :: "conn \<Rightarrow> conn option \<Rightarrow> chain_id \<Rightarrow> world \<Rightarrow> endpoint_ref \<times> world" where
  "chain_NewClient m fb chainID w = alloc \<lparr>main = m, fallback = fb, ChainID = chainID\<rparr> w"

definition chain_NewSimpleClient :: "conn \<Rightarrow> chain_id \<Rightarrow> world \<Rightarrow> endpoint_ref \<times> world" where
  "chain_NewSimpleClient m chainID w = alloc \<lparr>main = m, fallback = None, ChainID = chainID\<rparr> w"

text \<open>
  Modelled from the spec: \<^verbatim>\<open>network.Manager\<close> (package \<^verbatim>\<open>rpc/network\<close>) is not among
  the sources. The spec's Network Configuration Provider, "given a chain identifier,
  returns { primary URL, optional fallback URL } or not found", and "given a full network
  list at startup, persists/initializes it". The table of the database is a map.
\<close>

type_synonym network_Manager = "chain_id \<rightharpoonup> Network"

definition network_NewManager :: "network_Manager \<Rightarrow> network_Manager" where
  "network_NewManager db = db"

definition network_Init :: "network_Manager \<Rightarrow> Network list \<Rightarrow> network_Manager" where
  "network_Init nm networks = foldl (\<lambda>m n. m(NetworkChainID n \<mapsto> n)) nm networks"

definition network_Find :: "network_Manager \<Rightarrow> chain_id \<Rightarrow> Network option" where
  "network_Find nm chainID = nm chainID"

subsection \<open>Router, handlers and the client\<close>

text \<open>
  Modelled from the spec: \<^verbatim>\<open>router\<close>, \<^verbatim>\<open>newRouter\<close>, \<^verbatim>\<open>routeBlocked\<close> and
  \<^verbatim>\<open>routeRemote\<close> are not among the sources. The spec's Method Router is "constructed
  once with a boolean upstream enabled flag; policy data (blocklist and remote-list) is
  fixed configuration"; \<^verbatim>\<open>IsBlocked\<close> is "true if the method must never be served,
  regardless of upstream configuration"; \<^verbatim>\<open>IsRemote\<close>, "when no upstream model is in
  effect, always returns false". The two lists are predicates on method names, since the
  spec leaves their content and the matching rule (exact or prefix) open.
\<close>

record policy =
  blockedMethods :: "string \<Rightarrow> bool"
  remoteMethods :: "string \<Rightarrow> bool"

record router =
  routerPolicy :: policy
  routerUpstreamEnabled :: bool

definition newRouter :: "policy \<Rightarrow> bool \<Rightarrow> router" where
  "newRouter p upstreamEnabled = \<lparr>routerPolicy = p, routerUpstreamEnabled = upstreamEnabled\<rparr>"

definition routeBlocked :: "router \<Rightarrow> string \<Rightarrow> bool" where
  "routeBlocked r method = blockedMethods (routerPolicy r) method"

definition routeRemote :: "router \<Rightarrow> string \<Rightarrow> bool" where
  "routeRemote r method = (routerUpstreamEnabled r \<and> remoteMethods (routerPolicy r) method)"

text \<open>
  \<^verbatim>\<open>type Handler func(context.Context, uint64, ...interface{}) (interface{}, error)\<close>.
  What a handler does besides returning is its own business and not modelled.
\<close>

type_synonym Handler = "go_context \<Rightarrow> chain_id \<Rightarrow> go_value list \<Rightarrow> go_value \<times> error option"

record Client =
  upstreamEnabled :: bool
  upstreamURL :: string
  UpstreamChainID :: chain_id
  local :: "conn option"
  upstream :: endpoint_ref
  rpcClients :: "chain_id \<rightharpoonup> endpoint_ref"
  router :: router
  NetworkManager :: network_Manager
  handlers :: "string \<rightharpoonup> Handler"

subsection \<open>Construction and the endpoint cache\<close>

text \<open>
  \<^verbatim>\<open>NewClient\<close>. The struct literal leaves \<^verbatim>\<open>upstreamEnabled\<close>, \<^verbatim>\<open>upstreamURL\<close>,
  \<^verbatim>\<open>UpstreamChainID\<close> and \<^verbatim>\<open>upstream\<close> at their zero values; \<^verbatim>\<open>router\<close> is
  assigned last, from \<^verbatim>\<open>c.upstreamEnabled\<close>. An error of \<^verbatim>\<open>networkManager.Init\<close> is
  only logged. The router's policy lists are package data, a parameter here.
\<close>

definition NewClient ::
  "dialer \<Rightarrow> policy \<Rightarrow> world \<Rightarrow> conn option \<Rightarrow> chain_id \<Rightarrow> UpstreamRPCConfig \<Rightarrow> Network list
     \<Rightarrow> network_Manager \<Rightarrow> (Client option \<times> error option) \<times> world" where
  "NewClient dial p w client upstreamChainID upstreamCfg networks db =
     (let networkManager = network_Init (network_NewManager db) networks;
          c = \<lparr>upstreamEnabled = False, upstreamURL = [], UpstreamChainID = 0,
               local = client, upstream = None, rpcClients = Map.empty,
               router = newRouter p False, NetworkManager = networkManager,
               handlers = Map.empty\<rparr>
      in if Enabled upstreamCfg then
           (let c1 = c\<lparr>UpstreamChainID := upstreamChainID,
                         upstreamEnabled := Enabled upstreamCfg,
                         upstreamURL := URL upstreamCfg\<rparr>
            in case gethrpc_Dial dial w (upstreamURL c1) of
                 (Inl err, w1) \<Rightarrow> ((None, Some (Error (''dial upstream server: '' @ msg err))), w1)
               | (Inr upstreamClient, w1) \<Rightarrow>
                   (case chain_NewSimpleClient upstreamClient upstreamChainID w1 of
                      (r, w2) \<Rightarrow>
                        ((Some (c1\<lparr>upstream := r, router := newRouter p (upstreamEnabled c1)\<rparr>), None), w2)))
         else ((Some (c\<lparr>router := newRouter p (upstreamEnabled c)\<rparr>), None), w))"

text \<open>
  \<^verbatim>\<open>getClientUsingCache\<close>: the cached endpoint; else the network's configuration, and
  without one the upstream endpoint for the upstream's chain or an error; else a dial of
  the URL, a dial of the fallback URL when there is one, a new endpoint, stored.
\<close>

definition getClientUsingCache ::
  "dialer \<Rightarrow> Client \<Rightarrow> world \<Rightarrow> chain_id \<Rightarrow> (endpoint_ref \<times> error option) \<times> Client \<times> world" where
  "getClientUsingCache dial c w0 chainID =
     (let w = log_event (EvGetClient chainID) w0 in
      case rpcClients c chainID of
        Some rpcClient \<Rightarrow> ((rpcClient, None), c, w)
      | None \<Rightarrow>
         (let w1 = log_event (EvFind chainID) w in
          case network_Find (NetworkManager c) chainID of
            None \<Rightarrow>
              if UpstreamChainID c = chainID then ((upstream c, None), c, w1)
              else ((None, Some (Error (''could not find network: '' @ decimal (unat chainID)))), c, w1)
          | Some network \<Rightarrow>
             (case gethrpc_Dial dial w1 (RPCURL network) of
                (Inl err, w2) \<Rightarrow> ((None, Some (Error (''dial upstream server: '' @ msg err))), c, w2)
              | (Inr rpcClient, w2) \<Rightarrow>
                 (case (if length (FallbackURL network) > 0
                        then (case gethrpc_Dial dial w2 (FallbackURL network) of
                                (Inl err, w3) \<Rightarrow> (Inl err, w3)
                              | (Inr fb, w3) \<Rightarrow> (Inr (Some fb), w3))
                        else (Inr None, w2)) of
                    (Inl err, w3) \<Rightarrow> ((None, Some (Error (''dial upstream server: '' @ msg err))), c, w3)
                  | (Inr rpcFallbackClient, w3) \<Rightarrow>
                     (case chain_NewClient rpcClient rpcFallbackClient chainID w3 of
                        (client, w4) \<Rightarrow>
                          ((client, None), c\<lparr>rpcClients := (rpcClients c)(chainID \<mapsto> client)\<rparr>, w4))))))"

definition EthClient ::
  "dialer \<Rightarrow> Client \<Rightarrow> world \<Rightarrow> chain_id \<Rightarrow> (endpoint_ref \<times> error option) \<times> Client \<times> world" where
  "EthClient dial c w chainID =
     (case getClientUsingCache dial c w chainID of
        ((client, Some err), c', w') \<Rightarrow> ((None, Some err), c', w')
      | ((client, None), c', w') \<Rightarrow> ((client, None), c', w'))"

text \<open>\<^verbatim>\<open>UpdateUpstreamURL\<close>\<close>

definition UpdateUpstreamURL :: "dialer \<Rightarrow> Client \<Rightarrow> world \<Rightarrow> string \<Rightarrow> error option \<times> Client \<times> world" where
  "UpdateUpstreamURL dial c w url =
     (case upstream c of
        None \<Rightarrow> (None, c, w)
      | Some a \<Rightarrow>
         (case gethrpc_Dial dial w url of
            (Inl err, w1) \<Rightarrow> (Some err, c, w1)
          | (Inr rpcClient, w1) \<Rightarrow>
             (case chain_NewSimpleClient rpcClient (UpstreamChainID c) w1 of
                (r, w2) \<Rightarrow> (None, c\<lparr>upstream := r, upstreamURL := url\<rparr>, w2))))"

subsection \<open>Reflection\<close>

text \<open>
  The part of package \<^verbatim>\<open>reflect\<close> that the result binder uses, after the library's
  documentation: a \<^verbatim>\<open>reflect.Value\<close> is the zero Value or a type, the data and whether
  it is addressable (only then can it be set).
\<close>

datatype kind = KBool | KInt | KUint8 | KString | KFloat64 | KSlice | KMap | KPtr | KInterface

fun Kind :: "go_type \<Rightarrow> kind" where
  "Kind TBool = KBool"
| "Kind TInt = KInt"
| "Kind TUint8 = KUint8"
| "Kind TString = KString"
| "Kind TFloat64 = KFloat64"
| "Kind (TSlice t) = KSlice"
| "Kind (TMap k v) = KMap"
| "Kind (TPtr t) = KPtr"
| "Kind TInterface = KInterface"
| "Kind (TNamed n u) = Kind u"

fun kind_name :: "kind \<Rightarrow> string" where
  "kind_name KBool = ''bool''"
| "kind_name KInt = ''int''"
| "kind_name KUint8 = ''uint8''"
| "kind_name KString = ''string''"
| "kind_name KFloat64 = ''float64''"
| "kind_name KSlice = ''slice''"
| "kind_name KMap = ''map''"
| "kind_name KPtr = ''ptr''"
| "kind_name KInterface = ''interface''"

fun type_name :: "go_type \<Rightarrow> string" where
  "type_name TBool = ''bool''"
| "type_name TInt = ''int''"
| "type_name TUint8 = ''uint8''"
| "type_name TString = ''string''"
| "type_name TFloat64 = ''float64''"
| "type_name (TSlice t) = ''[]'' @ type_name t"
| "type_name (TMap k v) = ''map['' @ type_name k @ '']'' @ type_name v"
| "type_name (TPtr t) = ''*'' @ type_name t"
| "type_name TInterface = ''interface {}''"
| "type_name (TNamed n u) = n"

fun underlying :: "go_type \<Rightarrow> go_type" where
  "underlying (TNamed n u) = underlying u"
| "underlying t = t"

text \<open>The predeclared types and the defined types have a name; type literals have none.\<close>

fun hasName :: "go_type \<Rightarrow> bool" where
  "hasName (TSlice t) = False"
| "hasName (TMap k v) = False"
| "hasName (TPtr t) = False"
| "hasName TInterface = False"
| "hasName t = True"

fun elem_type :: "go_type \<Rightarrow> go_type" where
  "elem_type (TPtr t) = t"
| "elem_type (TNamed n u) = elem_type u"
| "elem_type t = t"

text \<open>
  Go's assignability, as \<^verbatim>\<open>reflect\<close> checks it: identical types, or identical
  underlying types when not both have a name; or the target is an interface that the
  value's type implements (every type implements the empty interface).
\<close>

definition directlyAssignable :: "go_type \<Rightarrow> go_type \<Rightarrow> bool" where
  "directlyAssignable T V =
     (T = V \<or> (\<not> (hasName T \<and> hasName V) \<and> Kind T = Kind V \<and> underlying T = underlying V))"

definition implements :: "go_type \<Rightarrow> go_type \<Rightarrow> bool" where
  "implements T V = (Kind T = KInterface)"

definition assignable :: "go_type \<Rightarrow> go_type \<Rightarrow> bool" where
  "assignable T V = (directlyAssignable T V \<or> implements T V)"

datatype reflect_Value = Zero | RV go_type go_data bool

fun ValueOf :: "go_value \<Rightarrow> reflect_Value" where
  "ValueOf None = Zero"
| "ValueOf (Some (t, d)) = RV t d False"

text \<open>
  \<^verbatim>\<open>Elem\<close>: the variable a pointer points to (addressable), the zero Value for a nil
  pointer, the value in an interface; it panics on every other kind.
\<close>

fun Elem :: "reflect_Value \<Rightarrow> reflect_Value outcome" where
  "Elem Zero = Panicked ''reflect: call of reflect.Value.Elem on zero Value''"
| "Elem (RV t d a) =
     (if Kind t = KPtr then
        (case d of DPtr (Some x) \<Rightarrow> Returned (RV (elem_type t) x True) | _ \<Rightarrow> Returned Zero)
      else if Kind t = KInterface then
        (case d of DIface (Some (v, x)) \<Rightarrow> Returned (RV v x False) | _ \<Rightarrow> Returned Zero)
      else Panicked (''reflect: call of reflect.Value.Elem on '' @ kind_name (Kind t) @ '' Value''))"

fun Type :: "reflect_Value \<Rightarrow> go_type outcome" where
  "Type Zero = Panicked ''reflect: call of reflect.Value.Type on zero Value''"
| "Type (RV t d a) = Returned t"

fun CanSet :: "reflect_Value \<Rightarrow> bool" where
  "CanSet Zero = False"
| "CanSet (RV t d a) = a"

text \<open>
  \<^verbatim>\<open>v.Set(x)\<close> panics unless \<open>v\<close> can be set, \<open>x\<close> is a valid Value and the type of
  \<open>x\<close> is assignable to the type of \<open>v\<close>; an interface target keeps the dynamic type.
\<close>

fun Set :: "reflect_Value \<Rightarrow> reflect_Value \<Rightarrow> reflect_Value outcome" where
  "Set Zero x = Panicked ''reflect: call of reflect.Value.Set on zero Value''"
| "Set (RV t d a) x =
     (if \<not> a then Panicked ''reflect: reflect.Value.Set using unaddressable value''
      else case x of
        Zero \<Rightarrow> Panicked ''reflect: call of reflect.Value.Set on zero Value''
      | RV v xd xa \<Rightarrow>
          if directlyAssignable t v then Returned (RV t xd True)
          else if implements t v then Returned (RV t (DIface (Some (v, xd))) True)
          else Panicked (''reflect.Set: value of type '' @ type_name v @
                         '' is not assignable to type '' @ type_name t))"

subsection \<open>The result binder\<close>

text \<open>
  The caller's variable after \<^verbatim>\<open>value.Set\<close>: \<open>result\<close> points to it, so the new data
  is seen through \<open>result\<close>.
\<close>

fun pointee_set :: "go_value \<Rightarrow> reflect_Value \<Rightarrow> go_value" where
  "pointee_set (Some (t, DPtr (Some old))) (RV vt d a) = Some (t, DPtr (Some d))"
| "pointee_set result v = result"

text \<open>
  The last lines of \<^verbatim>\<open>setResultFromRPCResponse\<close>, from \<^verbatim>\<open>value := ...Elem()\<close> on:
  \<open>store_value\<close> is the guarded \<^verbatim>\<open>Set\<close>.
\<close>

definition store_value :: "go_value \<Rightarrow> reflect_Value \<Rightarrow> reflect_Value \<Rightarrow> (error option \<times> go_value) outcome" where
  "store_value result val responseValue =
     (if \<not> CanSet val then Returned (Some (Error ''can't assign value to result''), result)
      else case Set val responseValue of
             Panicked p \<Rightarrow> Panicked p
           | Returned val' \<Rightarrow> Returned (None, pointee_set result val'))"

definition assign_result :: "go_value \<Rightarrow> reflect_Value \<Rightarrow> (error option \<times> go_value) outcome" where
  "assign_result result responseValue =
     (case Elem (ValueOf result) of
        Panicked p \<Rightarrow> Panicked p
      | Returned val \<Rightarrow> store_value result val responseValue)"

text \<open>The body of \<^verbatim>\<open>setResultFromRPCResponse\<close>, which may panic.\<close>

definition setResult_body :: "marshaller \<Rightarrow> go_value \<Rightarrow> go_value \<Rightarrow> (error option \<times> go_value) outcome" where
  "setResult_body marshal result response =
     (let responseValue = ValueOf response in
      case Elem (ValueOf result) of
        Panicked p \<Rightarrow> Panicked p
      | Returned e \<Rightarrow>
         (case Type e of
            Panicked p \<Rightarrow> Panicked p
          | Returned t \<Rightarrow>
             if t = RawMessage \<or> t = bytesType then
               (case marshal response of
                  Panicked p \<Rightarrow> Panicked p
                | Returned (Inl err) \<Rightarrow> Returned (Some err, result)
                | Returned (Inr data) \<Rightarrow> assign_result result (ValueOf (Some (bytesType, DBytes data))))
             else assign_result result responseValue))"

text \<open>
  The deferred function: a panic of the body is recovered and becomes the error
  \<^verbatim>\<open>fmt.Errorf("invalid result type: %s", r)\<close>; a panic comes before any write.
\<close>

definition setResultFromRPCResponse :: "marshaller \<Rightarrow> go_value \<Rightarrow> go_value \<Rightarrow> (error option \<times> go_value) outcome" where
  "setResultFromRPCResponse marshal result response =
     (case setResult_body marshal result response of
        Panicked r \<Rightarrow> Returned (Some (Error (''invalid result type: '' @ r)), result)
      | Returned x \<Rightarrow> Returned x)"

text \<open>
  Two conditions on what is passed as \<^verbatim>\<open>result\<close>. An \<^verbatim>\<open>interface{}\<close> never has
  an interface type as its dynamic type; and a valid pointer is a non-nil pointer, to the
  caller's variable.
\<close>

definition dynamic :: "go_value \<Rightarrow> bool" where
  "dynamic v = (case v of None \<Rightarrow> True | Some (t, d) \<Rightarrow> Kind t \<noteq> KInterface)"


subsection \<open>Dispatch\<close>

text \<open>
  The collaborators of the dispatch: the dialer, \<^verbatim>\<open>json.Marshal\<close>, and the two
  \<^verbatim>\<open>CallContext\<close> methods of the transports (of \<^verbatim>\<open>chain.ClientWithFallback\<close>, which
  gets the object the pointer refers to, \<open>None\<close> for nil; and of the local
  \<^verbatim>\<open>gethrpc.Client\<close>). A transport call returns an error or writes the result.
\<close>

type_synonym transport_call =
  "go_context \<Rightarrow> go_value \<Rightarrow> string \<Rightarrow> go_value list \<Rightarrow> (error option \<times> go_value) outcome"

record env =
  Dial :: dialer
  Marshal :: marshaller
  ChainCall :: "ClientWithFallback option \<Rightarrow> transport_call"
  LocalCall :: "conn \<Rightarrow> transport_call"

fun load :: "world \<Rightarrow> endpoint_ref \<Rightarrow> ClientWithFallback option" where
  "load w None = None"
| "load w (Some a) = (if a < length (heap w) then Some (heap w ! a) else None)"

text \<open>\<^verbatim>\<open>handler\<close>: the registered handler and whether there is one.\<close>

definition handler :: "Client \<Rightarrow> string \<Rightarrow> Handler option" where
  "handler c method = handlers c method"

definition RegisterHandler :: "Client \<Rightarrow> string \<Rightarrow> Handler \<Rightarrow> Client" where
  "RegisterHandler c method h = c\<lparr>handlers := (handlers c)(method \<mapsto> h)\<rparr>"

definition callMethod ::
  "env \<Rightarrow> world \<Rightarrow> go_context \<Rightarrow> go_value \<Rightarrow> chain_id \<Rightarrow> Handler \<Rightarrow> go_value list
     \<Rightarrow> (error option \<times> go_value) outcome \<times> world" where
  "callMethod env w ctx result chainID h args =
     (let w1 = log_event (EvHandlerCall ctx chainID args) w in
      case h ctx chainID args of
        (response, Some err) \<Rightarrow> (Returned (Some err, result), w1)
      | (response, None) \<Rightarrow>
          if result = None then (Returned (None, result), w1)
          else (setResultFromRPCResponse (Marshal env) result response, w1))"

definition CallContextIgnoringLocalHandlers ::
  "env \<Rightarrow> Client \<Rightarrow> world \<Rightarrow> go_context \<Rightarrow> go_value \<Rightarrow> chain_id \<Rightarrow> string \<Rightarrow> go_value list
     \<Rightarrow> (error option \<times> go_value) outcome \<times> Client \<times> world" where
  "CallContextIgnoringLocalHandlers env c w ctx result chainID method args =
     (let w1 = log_event (EvRouteBlocked method) w in
      if routeBlocked (router c) method then (Returned (Some ErrMethodNotFound, result), c, w1)
      else
        (let w2 = log_event (EvRouteRemote method) w1 in
         if routeRemote (router c) method then
           (case getClientUsingCache (Dial env) c w2 chainID of
              ((client, Some err), c', w3) \<Rightarrow> (Returned (Some err, result), c', w3)
            | ((client, None), c', w3) \<Rightarrow>
                (ChainCall env (load w3 client) ctx result method args, c',
                 log_event (EvChainCall client method) w3))
         else
           (case local c of
              None \<Rightarrow> (Returned (Some (Error ''missing local JSON-RPC endpoint''), result), c, w2)
            | Some l \<Rightarrow>
                (LocalCall env l ctx result method args, c, log_event (EvLocalCall l method) w2))))"

definition CallContext ::
  "env \<Rightarrow> Client \<Rightarrow> world \<Rightarrow> go_context \<Rightarrow> go_value \<Rightarrow> chain_id \<Rightarrow> string \<Rightarrow> go_value list
     \<Rightarrow> (error option \<times> go_value) outcome \<times> Client \<times> world" where
  "CallContext env c w ctx result chainID method args =
     (let w1 = log_event (EvRouteBlocked method) (log_event (EvCountCall method) w) in
      if routeBlocked (router c) method then (Returned (Some ErrMethodNotFound, result), c, w1)
      else
        (let w2 = log_event (EvHandlerLookup method) w1 in
         case handler c method of
           Some h \<Rightarrow>
             (case callMethod env w2 ctx result chainID h args of (r, w3) \<Rightarrow> (r, c, w3))
         | None \<Rightarrow> CallContextIgnoringLocalHandlers env c w2 ctx result chainID method args))"

definition Call ::
  "env \<Rightarrow> Client \<Rightarrow> world \<Rightarrow> go_value \<Rightarrow> chain_id \<Rightarrow> string \<Rightarrow> go_value list
     \<Rightarrow> (error option \<times> go_value) outcome \<times> Client \<times> world" where
  "Call env c w result chainID method args = CallContext env c w Background result chainID method args"

subsection \<open>Concrete inputs\<close>

text \<open>
  A small configuration on which the theorems below are run: a client without upstream
  and one with the upstream of chain 7 connected, each with the world it lives in.
\<close>

definition demo_world :: world where
  "demo_world = \<lparr>heap = [], trace = []\<rparr>"

definition demo_policy :: policy where
  "demo_policy = \<lparr>blockedMethods = (\<lambda>m. m = ''admin_stop''), remoteMethods = (\<lambda>m. m = ''eth_call'')\<rparr>"

definition demo_network :: Network where
  "demo_network = \<lparr>NetworkChainID = 1, RPCURL = ''https://main'', FallbackURL = ''https://backup''\<rparr>"

definition demo_dial :: dialer where
  "demo_dial k url =
     (if url = ''wss://new-endpoint'' \<or> url = ''https://down'' then Some (Error ''connection refused'')
      else None)"

definition demo_client :: Client where
  "demo_client =
     \<lparr>upstreamEnabled = False, upstreamURL = [], UpstreamChainID = 0,
      local = None, upstream = None, rpcClients = Map.empty,
      router = newRouter demo_policy False, NetworkManager = [1 \<mapsto> demo_network],
      handlers = Map.empty\<rparr>"

definition demo_upstream_client :: Client where
  "demo_upstream_client =
     demo_client\<lparr>upstreamEnabled := True, upstreamURL := ''https://upstream'', UpstreamChainID := 7,
                 upstream := Some 0, router := newRouter demo_policy True\<rparr>"

definition demo_upstream_world :: world where
  "demo_upstream_world =
     \<lparr>heap = [\<lparr>main = Conn 0 ''https://upstream'', fallback = None, ChainID = 7\<rparr>],
      trace = [EvDial ''https://upstream'']\<rparr>"

definition demo_network_five :: Network where
  "demo_network_five = \<lparr>NetworkChainID = 5, RPCURL = ''https://five'', FallbackURL = []\<rparr>"

definition demo_network_down :: Network where
  "demo_network_down = \<lparr>NetworkChainID = 2, RPCURL = ''https://main'', FallbackURL = ''https://down''\<rparr>"

text \<open>
  A marshaller that knows the encoding \<^verbatim>\<open>{"x":1}\<close> of the map of Scenario E, two
  handlers, and two result variables: an \<^verbatim>\<open>int\<close> and a \<^verbatim>\<open>[]byte\<close>.
\<close>

definition demo_marshal :: marshaller where
  "demo_marshal v =
     (if v = Some (TMap TString TInt, DMap [(DString ''x'', DInt 1)])
      then Returned (Inr [123, 34, 120, 34, 58, 49, 125])
      else Returned (Inl (Error ''json: unsupported value'')))"

definition demo_env :: env where
  "demo_env = \<lparr>Dial = demo_dial, Marshal = demo_marshal,
               ChainCall = (\<lambda>ep ctx result method args. Returned (None, result)),
               LocalCall = (\<lambda>l ctx result method args. Returned (None, result))\<rparr>"

definition demo_handler :: Handler where
  "demo_handler ctx chainID args = (Some (TInt, DInt 42), None)"

definition demo_failing_handler :: Handler where
  "demo_failing_handler ctx chainID args = (None, Some (Error ''insufficient funds''))"

definition demo_int_slot :: go_value where
  "demo_int_slot = Some (TPtr TInt, DPtr (Some (DInt 0)))"

definition demo_bytes_slot :: go_value where
  "demo_bytes_slot = Some (TPtr bytesType, DPtr (Some DNull))"

definition demo_eth_call_client :: Client where
  "demo_eth_call_client = RegisterHandler demo_upstream_client ''eth_call'' demo_handler"

definition demo_failing_client :: Client where
  "demo_failing_client = RegisterHandler demo_client ''wallet_getBalance'' demo_failing_handler"

section \<open>Properties\<close>

subsection \<open>The log and the dialer\<close>

lemma dials_log_event: "dials (log_event e w) = dials w + (if is_dial e then 1 else 0)"
  by (simp add: dials_def log_event_def)

lemma heap_log_event: "heap (log_event e w) = heap w"
  by (simp add: log_event_def)

lemma trace_log_event: "trace (log_event e w) = trace w @ [e]"
  by (simp add: log_event_def)

lemma Dial_ok:
  "dial (dials w) url = None \<Longrightarrow>
   gethrpc_Dial dial w url = (Inr (Conn (dials w) url), log_event (EvDial url) w)"
  by (simp add: gethrpc_Dial_def Let_def)

lemma Dial_fails:
  "dial (dials w) url = Some e \<Longrightarrow> gethrpc_Dial dial w url = (Inl e, log_event (EvDial url) w)"
  by (simp add: gethrpc_Dial_def Let_def)

subsection \<open>The endpoint cache\<close>

lemma cached:
  "rpcClients c chainID = Some r \<Longrightarrow>
   getClientUsingCache dial c w chainID = ((r, None), c, log_event (EvGetClient chainID) w)"
  by (simp add: getClientUsingCache_def Let_def)

lemma uncached_dialled:
  assumes "rpcClients c chainID = None"
    and "network_Find (NetworkManager c) chainID = Some n"
    and "dial (dials w) (RPCURL n) = None"
    and "FallbackURL n \<noteq> [] \<longrightarrow> dial (Suc (dials w)) (FallbackURL n) = None"
  shows "getClientUsingCache dial c w chainID =
      ((Some (length (heap w)), None),
       c\<lparr>rpcClients := (rpcClients c)(chainID \<mapsto> Some (length (heap w)))\<rparr>,
       (if FallbackURL n = []
        then log_event (EvDial (RPCURL n)) (log_event (EvFind chainID) (log_event (EvGetClient chainID) w))
        else log_event (EvDial (FallbackURL n)) (log_event (EvDial (RPCURL n))
               (log_event (EvFind chainID) (log_event (EvGetClient chainID) w))))
       \<lparr>heap := heap w @ [\<lparr>main = Conn (dials w) (RPCURL n),
            fallback = (if FallbackURL n = [] then None else Some (Conn (Suc (dials w)) (FallbackURL n))),
            ChainID = chainID\<rparr>]\<rparr>)"
  using assms
  by (simp add: getClientUsingCache_def Let_def Dial_ok dials_log_event chain_NewClient_def alloc_def heap_log_event)

text \<open>
  Claim C3, as amended. For a chain id that is not cached, whose network configuration
  has a URL that can be dialled (and a fallback URL that can be dialled, if one is
  configured), two calls of \<^verbatim>\<open>getClientUsingCache\<close> in sequence return the same non-nil
  endpoint reference with a nil error both times; the first call dials once for the
  primary URL and once more for the fallback URL if there is one, the second call dials
  nothing, allocates nothing and leaves the client as it is.
\<close>

theorem cache_twice:
  assumes "rpcClients c chainID = None"
    and "network_Find (NetworkManager c) chainID = Some n"
    and "dial (dials w) (RPCURL n) = None"
    and "FallbackURL n \<noteq> [] \<longrightarrow> dial (Suc (dials w)) (FallbackURL n) = None"
  shows "case getClientUsingCache dial c w chainID of
           (res1, c1, w1) \<Rightarrow>
             (case getClientUsingCache dial c1 w1 chainID of
                (res2, c2, w2) \<Rightarrow>
                  res1 = (Some (length (heap w)), None) \<and> res2 = res1 \<and>
                  rpcClients c1 chainID = Some (Some (length (heap w))) \<and> c2 = c1 \<and>
                  dials w1 = dials w + (if FallbackURL n = [] then 1 else 2) \<and>
                  dials w2 = dials w1 \<and> heap w2 = heap w1 \<and>
                  trace w2 = trace w1 @ [EvGetClient chainID])"
  using assms
  by (simp add: uncached_dialled cached dials_log_event heap_log_event trace_log_event)
     (simp add: dials_def log_event_def)

text \<open>The amended claim C3 on chain 1, which has a fallback URL: two dials, both in the first call.\<close>

theorem cache_twice_witness:
  "case getClientUsingCache demo_dial demo_client demo_world 1 of
     (res1, c1, w1) \<Rightarrow>
        (case getClientUsingCache demo_dial c1 w1 1 of
           (res2, c2, w2) \<Rightarrow> res1 = (Some 0, None) \<and> res2 = res1 \<and> dials w1 = 2 \<and> dials w2 = 2)"
  using cache_twice [where c = demo_client and chainID = 1 and n = demo_network and dial = demo_dial
      and w = demo_world]
  by (simp add: demo_client_def demo_world_def demo_network_def demo_dial_def network_Find_def
      dials_def split: prod.splits)

text \<open>
  Claim C3 as stated ("exactly one dial in total") fails where a fallback URL is
  configured: chain 1 has the URLs \<^verbatim>\<open>https://main\<close> and \<^verbatim>\<open>https://backup\<close>, both can
  be dialled, nothing was dialled before, and after the two calls two dials were made.
\<close>

theorem cache_twice_counterexample:
  "network_Find (NetworkManager demo_client) 1 = Some demo_network \<and>
   demo_dial 0 (RPCURL demo_network) = None \<and> demo_dial 1 (FallbackURL demo_network) = None \<and>
   dials demo_world = 0 \<and>
   dials (snd (snd (getClientUsingCache demo_dial
       (fst (snd (getClientUsingCache demo_dial demo_client demo_world 1)))
       (snd (snd (getClientUsingCache demo_dial demo_client demo_world 1))) 1))) = 2"
  by (simp add: getClientUsingCache_def Let_def gethrpc_Dial_def dials_def log_event_def
      demo_client_def demo_world_def demo_network_def demo_dial_def network_Find_def
      chain_NewClient_def alloc_def)

text \<open>
  Claim C6. For a chain id that is not cached, has no network configuration and is not the
  upstream's chain id, \<^verbatim>\<open>getClientUsingCache\<close> returns a nil endpoint with the error
  "could not find network: <id>", leaves the client (so the cache) unchanged, allocates
  nothing and dials nothing; once a configuration \<open>n\<close> with URLs that can be dialled is
  there for the id, the call on the state left behind succeeds.
\<close>

theorem network_not_found:
  assumes "rpcClients c chainID = None"
    and "network_Find (NetworkManager c) chainID = None"
    and "UpstreamChainID c \<noteq> chainID"
  shows "case getClientUsingCache dial c w chainID of
           (res, c', w') \<Rightarrow>
             res = (None, Some (Error (''could not find network: '' @ decimal (unat chainID)))) \<and>
             c' = c \<and> rpcClients c' chainID = None \<and> heap w' = heap w \<and> dials w' = dials w \<and>
             (dial (dials w') (RPCURL n) = None \<longrightarrow>
              (FallbackURL n \<noteq> [] \<longrightarrow> dial (Suc (dials w')) (FallbackURL n) = None) \<longrightarrow>
              fst (getClientUsingCache dial (c'\<lparr>NetworkManager := (NetworkManager c')(chainID \<mapsto> n)\<rparr>) w' chainID)
                = (Some (length (heap w')), None))"
proof -
  let ?w' = "log_event (EvFind chainID) (log_event (EvGetClient chainID) w)"
  have run: "getClientUsingCache dial c w chainID =
      ((None, Some (Error (''could not find network: '' @ decimal (unat chainID)))), c, ?w')"
    using assms by (simp add: getClientUsingCache_def Let_def)
  have same: "heap ?w' = heap w" "dials ?w' = dials w"
    by (simp_all add: heap_log_event dials_log_event)
  have later: "fst (getClientUsingCache dial (c\<lparr>NetworkManager := (NetworkManager c)(chainID \<mapsto> n)\<rparr>) ?w' chainID)
                = (Some (length (heap ?w')), None)"
    if "dial (dials ?w') (RPCURL n) = None"
      and "FallbackURL n \<noteq> [] \<longrightarrow> dial (Suc (dials ?w')) (FallbackURL n) = None"
    using that assms(1)
    by (subst uncached_dialled [where n = n]) (simp_all add: network_Find_def)
  show ?thesis
    using run same later assms(1) by simp
qed

text \<open>Claim C6 on chain 5 (Scenario C of the spec).\<close>

theorem network_not_found_witness:
  "fst (getClientUsingCache demo_dial demo_client demo_world 5)
     = (None, Some (Error ''could not find network: 5'')) \<and>
   rpcClients (fst (snd (getClientUsingCache demo_dial demo_client demo_world 5))) = Map.empty \<and>
   fst (getClientUsingCache demo_dial
         (demo_client\<lparr>NetworkManager := (NetworkManager demo_client)(5 \<mapsto> demo_network_five)\<rparr>)
         (snd (snd (getClientUsingCache demo_dial demo_client demo_world 5))) 5)
     = (Some 0, None)"
  using network_not_found [where c = demo_client and chainID = 5 and dial = demo_dial and w = demo_world
      and n = demo_network_five]
  by (simp add: demo_client_def demo_world_def demo_dial_def network_Find_def demo_network_five_def
      decimal.simps [of 5] split: prod.splits)

text \<open>
  Claim C7. For a chain id that is not cached and whose network configuration declares a
  fallback URL: if the dial of the primary URL fails, or the primary dial succeeds and the
  dial of the fallback URL fails, \<^verbatim>\<open>getClientUsingCache\<close> returns a nil endpoint with
  the error "dial upstream server: <the dial's error>", allocates no endpoint and leaves
  the client, so the cache, unchanged.
\<close>

theorem dial_failure_leaves_cache:
  assumes "rpcClients c chainID = None"
    and "network_Find (NetworkManager c) chainID = Some n"
    and "FallbackURL n \<noteq> []"
    and "dial (dials w) (RPCURL n) = Some e \<or>
         (dial (dials w) (RPCURL n) = None \<and> dial (Suc (dials w)) (FallbackURL n) = Some e)"
  shows "case getClientUsingCache dial c w chainID of
           (res, c', w') \<Rightarrow>
             res = (None, Some (Error (''dial upstream server: '' @ msg e))) \<and>
             c' = c \<and> rpcClients c' chainID = None \<and> heap w' = heap w"
  using assms
  by (auto simp add: getClientUsingCache_def Let_def Dial_ok Dial_fails dials_log_event heap_log_event)

text \<open>Claim C7 on chain 2: the primary URL connects, the fallback URL does not.\<close>

theorem dial_failure_leaves_cache_witness:
  "case getClientUsingCache demo_dial (demo_client\<lparr>NetworkManager := [2 \<mapsto> demo_network_down]\<rparr>) demo_world 2 of
     (res, c', w') \<Rightarrow>
        res = (None, Some (Error ''dial upstream server: connection refused'')) \<and>
        rpcClients c' 2 = None \<and> heap w' = []"
  using dial_failure_leaves_cache [where c = "demo_client\<lparr>NetworkManager := [2 \<mapsto> demo_network_down]\<rparr>"
      and chainID = 2 and n = demo_network_down and dial = demo_dial and w = demo_world
      and e = "Error ''connection refused''"]
  by (simp add: demo_client_def demo_world_def demo_dial_def demo_network_down_def network_Find_def
      dials_def split: prod.splits)

text \<open>
  Claim C10. With upstream disabled \<^verbatim>\<open>NewClient\<close> returns a client whose
  \<^verbatim>\<open>upstream\<close> is nil and whose \<^verbatim>\<open>UpstreamChainID\<close> is 0, whatever
  \<^verbatim>\<open>upstreamChainID\<close> was passed, without dialling; if chain 0 has no network
  configuration, \<^verbatim>\<open>getClientUsingCache\<close> and \<^verbatim>\<open>EthClient\<close> for chain 0 return a nil
  endpoint with a nil error, and dial nothing. The same holds of every client \<open>cl\<close>
  with a nil \<^verbatim>\<open>upstream\<close> and \<^verbatim>\<open>UpstreamChainID\<close> 0 for which chain 0 is neither
  cached nor configured.
\<close>

theorem disabled_upstream_nil_nil:
  assumes "\<not> Enabled cfg"
  shows "(case NewClient dial p w client upstreamChainID cfg networks db of
            ((Some c, None), w') \<Rightarrow>
               w' = w \<and> upstream c = None \<and> UpstreamChainID c = 0 \<and> rpcClients c = Map.empty \<and>
               (network_Find (NetworkManager c) 0 = None \<longrightarrow>
                  getClientUsingCache dial c w' 0
                    = ((None, None), c, log_event (EvFind 0) (log_event (EvGetClient 0) w')) \<and>
                  EthClient dial c w' 0
                    = ((None, None), c, log_event (EvFind 0) (log_event (EvGetClient 0) w')))
          | _ \<Rightarrow> False) \<and>
         (upstream cl = None \<and> UpstreamChainID cl = 0 \<and> rpcClients cl 0 = None \<and>
          network_Find (NetworkManager cl) 0 = None \<longrightarrow>
            getClientUsingCache dial cl wl 0
              = ((None, None), cl, log_event (EvFind 0) (log_event (EvGetClient 0) wl)) \<and>
            EthClient dial cl wl 0
              = ((None, None), cl, log_event (EvFind 0) (log_event (EvGetClient 0) wl)) \<and>
            dials (log_event (EvFind 0) (log_event (EvGetClient 0) wl)) = dials wl)"
  using assms
  by (simp add: NewClient_def Let_def getClientUsingCache_def EthClient_def dials_log_event)

text \<open>Claim C10 on a client built with upstream disabled and a network list without chain 0.\<close>

theorem disabled_upstream_nil_nil_witness:
  "case NewClient demo_dial demo_policy demo_world None 7 \<lparr>Enabled = False, URL = ''https://upstream''\<rparr>
          [demo_network] Map.empty of
     ((Some c, None), w') \<Rightarrow>
        upstream c = None \<and> UpstreamChainID c = 0 \<and>
        fst (getClientUsingCache demo_dial c w' 0) = (None, None) \<and>
        fst (EthClient demo_dial c w' 0) = (None, None) \<and>
        dials (snd (snd (EthClient demo_dial c w' 0))) = 0
   | _ \<Rightarrow> False"
  using disabled_upstream_nil_nil [where cfg = "\<lparr>Enabled = False, URL = ''https://upstream''\<rparr>"
      and dial = demo_dial and p = demo_policy and w = demo_world and client = None
      and upstreamChainID = 7 and networks = "[demo_network]" and db = Map.empty
      and cl = demo_client and wl = demo_world]
  by (simp add: NewClient_def Let_def network_Init_def network_NewManager_def network_Find_def
      demo_network_def demo_world_def demo_client_def dials_def log_event_def EthClient_def
      getClientUsingCache_def)

text \<open>
  Claim C5. \<^verbatim>\<open>UpdateUpstreamURL\<close> returns nil and changes nothing (it does not even
  dial) when \<^verbatim>\<open>upstream\<close> is nil. Otherwise it dials the URL: when the dial succeeds
  both \<^verbatim>\<open>upstream\<close>, a new endpoint on the new connection for \<^verbatim>\<open>UpstreamChainID\<close>,
  and \<^verbatim>\<open>upstreamURL\<close> are replaced; when it fails the dial's own error is returned,
  the client is unchanged, and a later lookup of the upstream's chain (not cached, not
  configured) still returns the old upstream endpoint.
\<close>

theorem update_upstream:
  shows "(upstream c = None \<longrightarrow> UpdateUpstreamURL dial c w url = (None, c, w)) \<and>
         (upstream c \<noteq> None \<longrightarrow> dial (dials w) url = None \<longrightarrow>
            UpdateUpstreamURL dial c w url
              = (None, c\<lparr>upstream := Some (length (heap w)), upstreamURL := url\<rparr>,
                 log_event (EvDial url) w
                   \<lparr>heap := heap w @ [\<lparr>main = Conn (dials w) url, fallback = None,
                                        ChainID = UpstreamChainID c\<rparr>]\<rparr>)) \<and>
         (upstream c \<noteq> None \<longrightarrow> dial (dials w) url = Some e \<longrightarrow>
            UpdateUpstreamURL dial c w url = (Some e, c, log_event (EvDial url) w) \<and>
            heap (log_event (EvDial url) w) = heap w \<and>
            (rpcClients c (UpstreamChainID c) = None \<longrightarrow>
             network_Find (NetworkManager c) (UpstreamChainID c) = None \<longrightarrow>
               fst (getClientUsingCache dial c (log_event (EvDial url) w) (UpstreamChainID c))
                 = (upstream c, None)))"
  by (auto simp add: UpdateUpstreamURL_def Dial_ok Dial_fails chain_NewSimpleClient_def alloc_def
      heap_log_event getClientUsingCache_def Let_def split: option.splits)

text \<open>Claim C5: no upstream; a URL that connects; and Scenario D of the spec, a URL that does not.\<close>

theorem update_upstream_witness:
  "UpdateUpstreamURL demo_dial demo_client demo_world ''wss://new-endpoint'' = (None, demo_client, demo_world) \<and>
   fst (UpdateUpstreamURL demo_dial demo_upstream_client demo_upstream_world ''wss://other'') = None \<and>
   upstream (fst (snd (UpdateUpstreamURL demo_dial demo_upstream_client demo_upstream_world ''wss://other''))) = Some 1 \<and>
   upstreamURL (fst (snd (UpdateUpstreamURL demo_dial demo_upstream_client demo_upstream_world ''wss://other''))) = ''wss://other'' \<and>
   fst (UpdateUpstreamURL demo_dial demo_upstream_client demo_upstream_world ''wss://new-endpoint'')
     = Some (Error ''connection refused'') \<and>
   fst (snd (UpdateUpstreamURL demo_dial demo_upstream_client demo_upstream_world ''wss://new-endpoint''))
     = demo_upstream_client \<and>
   fst (getClientUsingCache demo_dial demo_upstream_client
          (snd (snd (UpdateUpstreamURL demo_dial demo_upstream_client demo_upstream_world ''wss://new-endpoint''))) 7)
     = (Some 0, None)"
  using update_upstream [where c = demo_client and dial = demo_dial and w = demo_world
      and url = "''wss://new-endpoint''" and e = "Error ''connection refused''"]
    update_upstream [where c = demo_upstream_client and dial = demo_dial and w = demo_upstream_world
      and url = "''wss://other''" and e = "Error ''connection refused''"]
    update_upstream [where c = demo_upstream_client and dial = demo_dial and w = demo_upstream_world
      and url = "''wss://new-endpoint''" and e = "Error ''connection refused''"]
  by (simp add: demo_client_def demo_upstream_client_def demo_upstream_world_def demo_world_def
      demo_dial_def network_Find_def dials_def demo_network_def)

subsection \<open>Dispatch\<close>

text \<open>
  Claim C1. For a method \<open>m\<close> that the router classifies as blocked, \<^verbatim>\<open>CallContext\<close> and
  \<^verbatim>\<open>CallContextIgnoringLocalHandlers\<close> both return \<^verbatim>\<open>ErrMethodNotFound\<close>, whatever
  the chain id, the upstream configuration and the registered handlers; the client and
  the result are unchanged, and nothing is called after the blocked check: no handler
  lookup, no handler, no routing, no network.
\<close>

theorem blocked_method_not_found:
  assumes "routeBlocked (router c) m"
  shows "CallContext env c w ctx result chainID m args
           = (Returned (Some ErrMethodNotFound, result), c,
              log_event (EvRouteBlocked m) (log_event (EvCountCall m) w)) \<and>
         CallContextIgnoringLocalHandlers env c w ctx result chainID m args
           = (Returned (Some ErrMethodNotFound, result), c, log_event (EvRouteBlocked m) w)"
  using assms by (simp add: CallContext_def CallContextIgnoringLocalHandlers_def Let_def)

text \<open>Claim C1 on a blocked method for which a handler is registered.\<close>

theorem blocked_method_not_found_witness:
  "handlers (RegisterHandler demo_client ''admin_stop'' demo_handler) ''admin_stop'' \<noteq> None \<and>
   fst (CallContext demo_env (RegisterHandler demo_client ''admin_stop'' demo_handler) demo_world
          Background demo_int_slot 1 ''admin_stop'' [])
     = Returned (Some (Error ''The method does not exist/is not available''), demo_int_slot) \<and>
   trace (snd (snd (CallContext demo_env (RegisterHandler demo_client ''admin_stop'' demo_handler) demo_world
          Background demo_int_slot 1 ''admin_stop'' [])))
     = [EvCountCall ''admin_stop'', EvRouteBlocked ''admin_stop''] \<and>
   fst (CallContextIgnoringLocalHandlers demo_env (RegisterHandler demo_client ''admin_stop'' demo_handler)
          demo_world Background demo_int_slot 1 ''admin_stop'' [])
     = Returned (Some (Error ''The method does not exist/is not available''), demo_int_slot)"
  using blocked_method_not_found [where c = "RegisterHandler demo_client ''admin_stop'' demo_handler"
      and m = "''admin_stop''" and env = demo_env and w = demo_world and ctx = Background
      and result = demo_int_slot and chainID = 1 and args = "[]"]
  by (simp add: RegisterHandler_def demo_client_def routeBlocked_def newRouter_def demo_policy_def
      ErrMethodNotFound_def log_event_def demo_world_def)

text \<open>
  Claim C2. For a method \<open>m\<close> that is not blocked and has a registered handler \<open>h\<close>,
  \<^verbatim>\<open>CallContext\<close> calls \<open>h\<close> with \<open>(ctx, chainID, args)\<close> and returns what
  \<^verbatim>\<open>callMethod\<close> makes of its answer. The calls it makes are the call count, the
  blocked check, the handler lookup and the handler, nothing else: \<^verbatim>\<open>routeRemote\<close> is
  not consulted, no endpoint is looked up, dialled or allocated, the cache is unchanged,
  and neither a chain endpoint nor the local endpoint is called.
\<close>

theorem handler_path:
  assumes "\<not> routeBlocked (router c) m"
    and "handlers c m = Some h"
  shows "case CallContext env c w ctx result chainID m args of
           (r, c', w') \<Rightarrow>
             r = (case h ctx chainID args of
                    (response, Some err) \<Rightarrow> Returned (Some err, result)
                  | (response, None) \<Rightarrow>
                      if result = None then Returned (None, result)
                      else setResultFromRPCResponse (Marshal env) result response) \<and>
             c' = c \<and> heap w' = heap w \<and> dials w' = dials w \<and>
             trace w' = trace w @ [EvCountCall m, EvRouteBlocked m, EvHandlerLookup m,
                                   EvHandlerCall ctx chainID args]"
  using assms
  by (auto simp add: CallContext_def Let_def handler_def callMethod_def heap_log_event dials_log_event
      trace_log_event split: prod.splits option.splits)

text \<open>Claim C2 on \<^verbatim>\<open>eth_call\<close>, a remote method of a chain that is configured, with a handler.\<close>

theorem handler_path_witness:
  "routeRemote (router demo_eth_call_client) ''eth_call'' \<and>
   (case CallContext demo_env demo_eth_call_client demo_upstream_world Background demo_int_slot 1
           ''eth_call'' [] of
      (r, c', w') \<Rightarrow>
         r = Returned (None, Some (TPtr TInt, DPtr (Some (DInt 42)))) \<and> c' = demo_eth_call_client \<and>
         heap w' = heap demo_upstream_world \<and> dials w' = dials demo_upstream_world \<and>
         trace w' = [EvDial ''https://upstream'', EvCountCall ''eth_call'', EvRouteBlocked ''eth_call'',
                     EvHandlerLookup ''eth_call'', EvHandlerCall Background 1 []])"
  using handler_path [where c = demo_eth_call_client and m = "''eth_call''" and h = demo_handler
      and env = demo_env and w = demo_upstream_world and ctx = Background and result = demo_int_slot
      and chainID = 1 and args = "[]"]
  by (simp add: demo_eth_call_client_def RegisterHandler_def demo_upstream_client_def demo_client_def
      routeBlocked_def routeRemote_def newRouter_def demo_policy_def demo_upstream_world_def
      demo_handler_def demo_int_slot_def setResultFromRPCResponse_def setResult_body_def
      assign_result_def store_value_def directlyAssignable_def RawMessage_def split: prod.splits)

text \<open>
  Claim C9. When the registered handler returns an error, \<^verbatim>\<open>CallContext\<close> (and
  \<^verbatim>\<open>callMethod\<close>) returns that very error, and the caller's result is what it was:
  nothing is bound.
\<close>

theorem handler_error_unchanged:
  assumes "\<not> routeBlocked (router c) m"
    and "handlers c m = Some h"
    and "h ctx chainID args = (response, Some err)"
  shows "fst (CallContext env c w ctx result chainID m args) = Returned (Some err, result) \<and>
         fst (callMethod env w ctx result chainID h args) = Returned (Some err, result)"
  using assms
  by (simp add: CallContext_def Let_def handler_def callMethod_def)

text \<open>Claim C9 on a handler that fails.\<close>

theorem handler_error_unchanged_witness:
  "fst (CallContext demo_env demo_failing_client demo_world Background demo_int_slot 1 ''wallet_getBalance'' [])
     = Returned (Some (Error ''insufficient funds''), demo_int_slot) \<and>
   fst (callMethod demo_env demo_world Background demo_int_slot 1 demo_failing_handler [])
     = Returned (Some (Error ''insufficient funds''), demo_int_slot)"
  using handler_error_unchanged [where c = demo_failing_client and m = "''wallet_getBalance''"
      and h = demo_failing_handler and env = demo_env and w = demo_world and ctx = Background
      and result = demo_int_slot and chainID = 1 and args = "[]" and response = None
      and err = "Error ''insufficient funds''"]
  by (simp add: demo_failing_client_def RegisterHandler_def demo_client_def routeBlocked_def
      newRouter_def demo_policy_def demo_failing_handler_def)

subsection \<open>The result binder\<close>

lemma Elem_pointer:
  "Kind pt = KPtr \<Longrightarrow>
   Elem (ValueOf (Some (pt, DPtr (Some old)))) = Returned (RV (elem_type pt) old True)"
  by simp

lemma assign_result_pointer:
  "Kind pt = KPtr \<Longrightarrow>
   assign_result (Some (pt, DPtr (Some old))) x =
     (case Set (RV (elem_type pt) old True) x of
        Panicked p \<Rightarrow> Panicked p
      | Returned v \<Rightarrow> Returned (None, pointee_set (Some (pt, DPtr (Some old))) v))"
  by (simp add: assign_result_def store_value_def)

lemma bytes_assignable:
  "directlyAssignable RawMessage bytesType" "directlyAssignable bytesType bytesType"
  by (simp_all add: directlyAssignable_def RawMessage_def)

lemma bind_bytes:
  assumes "Kind pt = KPtr" and "elem_type pt = RawMessage \<or> elem_type pt = bytesType"
    and "marshal response = Returned (Inr data)"
  shows "setResultFromRPCResponse marshal (Some (pt, DPtr (Some old))) response
           = Returned (None, Some (pt, DPtr (Some (DBytes data))))"
  using assms bytes_assignable
  by (auto simp add: setResultFromRPCResponse_def setResult_body_def assign_result_pointer)

lemma bind_bytes_error:
  assumes "Kind pt = KPtr" and "elem_type pt = RawMessage \<or> elem_type pt = bytesType"
    and "marshal response = Returned (Inl err)"
  shows "setResultFromRPCResponse marshal (Some (pt, DPtr (Some old))) response
           = Returned (Some err, Some (pt, DPtr (Some old)))"
  using assms
  by (auto simp add: setResultFromRPCResponse_def setResult_body_def)

lemma bind_direct:
  assumes "Kind pt = KPtr" and "elem_type pt \<noteq> RawMessage" and "elem_type pt \<noteq> bytesType"
  shows "setResultFromRPCResponse marshal (Some (pt, DPtr (Some old))) response =
     (case response of
        None \<Rightarrow> Returned (Some (Error (''invalid result type: '' @
                   ''reflect: call of reflect.Value.Set on zero Value'')), Some (pt, DPtr (Some old)))
      | Some (V, d) \<Rightarrow>
          if directlyAssignable (elem_type pt) V then Returned (None, Some (pt, DPtr (Some d)))
          else if implements (elem_type pt) V
          then Returned (None, Some (pt, DPtr (Some (DIface (Some (V, d))))))
          else Returned (Some (Error (''invalid result type: '' @ ''reflect.Set: value of type '' @
                  type_name V @ '' is not assignable to type '' @ type_name (elem_type pt))),
                 Some (pt, DPtr (Some old))))"
  using assms
  by (auto simp add: setResultFromRPCResponse_def setResult_body_def assign_result_pointer
      split: option.splits)

text \<open>
  Claim C4. Let \<^verbatim>\<open>result\<close> be a non-nil pointer to a variable of type \<open>elem_type pt\<close>.
  If that type is \<^verbatim>\<open>json.RawMessage\<close> or \<^verbatim>\<open>[]byte\<close>, binding stores the bytes that
  \<^verbatim>\<open>json.Marshal\<close> returns for the response. Otherwise binding succeeds exactly when
  the response is not nil and its dynamic type is assignable to the variable's type, and
  then the variable holds the response: its data, or, for an interface variable, the
  response itself.
\<close>

theorem bind_result:
  assumes "Kind pt = KPtr"
  shows "(elem_type pt = RawMessage \<or> elem_type pt = bytesType \<longrightarrow>
            marshal response = Returned (Inr data) \<longrightarrow>
            setResultFromRPCResponse marshal (Some (pt, DPtr (Some old))) response
              = Returned (None, Some (pt, DPtr (Some (DBytes data))))) \<and>
         (elem_type pt \<noteq> RawMessage \<and> elem_type pt \<noteq> bytesType \<longrightarrow>
            ((\<exists>r. setResultFromRPCResponse marshal (Some (pt, DPtr (Some old))) response = Returned (None, r))
               \<longleftrightarrow> (\<exists>V d. response = Some (V, d) \<and> assignable (elem_type pt) V)) \<and>
            (response = Some (V, d) \<longrightarrow> assignable (elem_type pt) V \<longrightarrow>
               setResultFromRPCResponse marshal (Some (pt, DPtr (Some old))) response
                 = Returned (None, Some (pt, DPtr (Some
                     (if directlyAssignable (elem_type pt) V then d else DIface response))))))"
proof (intro conjI impI)
  assume "elem_type pt = RawMessage \<or> elem_type pt = bytesType"
    and "marshal response = Returned (Inr data)"
  then show "setResultFromRPCResponse marshal (Some (pt, DPtr (Some old))) response
              = Returned (None, Some (pt, DPtr (Some (DBytes data))))"
    using assms by (rule_tac bind_bytes)
next
  assume E: "elem_type pt \<noteq> RawMessage \<and> elem_type pt \<noteq> bytesType"
  show "(\<exists>r. setResultFromRPCResponse marshal (Some (pt, DPtr (Some old))) response = Returned (None, r))
          \<longleftrightarrow> (\<exists>V d. response = Some (V, d) \<and> assignable (elem_type pt) V)"
    using assms E by (auto simp add: bind_direct assignable_def split: option.splits)
next
  assume E: "elem_type pt \<noteq> RawMessage \<and> elem_type pt \<noteq> bytesType"
    and "response = Some (V, d)" and "assignable (elem_type pt) V"
  then show "setResultFromRPCResponse marshal (Some (pt, DPtr (Some old))) response
                 = Returned (None, Some (pt, DPtr (Some
                     (if directlyAssignable (elem_type pt) V then d else DIface response))))"
    using assms by (auto simp add: bind_direct assignable_def)
qed

text \<open>
  Claim C4: Scenario E of the spec (the bytes are \<^verbatim>\<open>{"x":1}\<close>), an \<^verbatim>\<open>int\<close> into an
  \<^verbatim>\<open>int\<close> variable, and a \<^verbatim>\<open>string\<close> refused by it.
\<close>

theorem bind_result_witness:
  "setResultFromRPCResponse demo_marshal demo_bytes_slot (Some (TMap TString TInt, DMap [(DString ''x'', DInt 1)]))
     = Returned (None, Some (TPtr bytesType, DPtr (Some (DBytes [123, 34, 120, 34, 58, 49, 125])))) \<and>
   setResultFromRPCResponse demo_marshal demo_int_slot (Some (TInt, DInt 42))
     = Returned (None, Some (TPtr TInt, DPtr (Some (DInt 42)))) \<and>
   (\<nexists>r. setResultFromRPCResponse demo_marshal demo_int_slot (Some (TString, DString ''42''))
     = Returned (None, r))"
  using bind_result [where pt = "TPtr bytesType" and marshal = demo_marshal and old = DNull
      and response = "Some (TMap TString TInt, DMap [(DString ''x'', DInt 1)])"
      and data = "[123, 34, 120, 34, 58, 49, 125]"]
    bind_result [where pt = "TPtr TInt" and marshal = demo_marshal and old = "DInt 0"
      and response = "Some (TInt, DInt 42)" and V = TInt and d = "DInt 42"]
    bind_result [where pt = "TPtr TInt" and marshal = demo_marshal and old = "DInt 0"
      and response = "Some (TString, DString ''42'')"]
  by (simp add: demo_marshal_def demo_bytes_slot_def demo_int_slot_def RawMessage_def
      assignable_def directlyAssignable_def implements_def)



text \<open>
  What \<^verbatim>\<open>reflect.ValueOf(result).Elem()\<close> returns is the zero Value or can be set: the
  guard \<^verbatim>\<open>!value.CanSet()\<close> never fires on a value that comes from there.
\<close>

lemma Elem_result_settable:
  assumes "dynamic result" and "Elem (ValueOf result) = Returned val"
  shows "val = Zero \<or> CanSet val"
proof (cases result)
  case None
  with assms(2) show ?thesis by simp
next
  case (Some td)
  obtain t d where "td = (t, d)" by (cases td)
  with assms Some show ?thesis
    by (auto simp add: dynamic_def split: if_splits go_data.splits option.splits)
qed



end
